theory Spec2Isabelle
  imports Main
begin

section \<open>Version information: the data model of version.go\<close>

text \<open>
  The Go struct \<open>Info\<close> (version.go, lines 30-51) has seven string fields. Go strings
  are byte sequences; \<open>len\<close> counts bytes and \<open>s[:7]\<close> slices bytes, so a string is a
  \<^typ>\<open>char list\<close> here, \<open>len\<close> is \<^const>\<open>length\<close> and \<open>s[:7]\<close> (taken only when
  \<open>len(s) > 7\<close>) is \<^term>\<open>take 7 s\<close>.
\<close>

record Info =
  Version :: string
  Commit :: string
  BuildDate :: string
  Branch :: string
  GoVersion :: string
  Platform :: string
  Compiler :: string

text \<open>
  What the process reads from its surroundings: the four package-level variables
  (version.go, lines 15-27; overridable at link time) and the constants of package
  \<open>runtime\<close>. The package variables are named \<open>var_*\<close> because \<open>Version\<close>, \<open>Commit\<close>,
  \<open>BuildDate\<close> and \<open>Branch\<close> already name the fields of \<open>Info\<close>.
\<close>

record environment =
  var_Version :: string
  var_Commit :: string
  var_BuildDate :: string
  var_Branch :: string
  runtime_Version :: string
  GOOS :: string
  GOARCH :: string
  runtime_Compiler :: string

text \<open>The package variables as the source initialises them; the runtime part is a parameter.\<close>

definition initial_vars :: "string \<Rightarrow> string \<Rightarrow> string \<Rightarrow> string \<Rightarrow> environment" where
  "initial_vars gover os arch compiler =
     \<lparr>var_Version = ''dev'', var_Commit = ''unknown'', var_BuildDate = ''unknown'',
      var_Branch = [], runtime_Version = gover, GOOS = os, GOARCH = arch,
      runtime_Compiler = compiler\<rparr>"

subsection \<open>Constructors\<close>

definition New :: "environment \<Rightarrow> string \<Rightarrow> string \<Rightarrow> string \<Rightarrow> Info" where
  "New env version commit buildDate =
     \<lparr>Version = version, Commit = commit, BuildDate = buildDate, Branch = [],
      GoVersion = runtime_Version env,
      Platform = GOOS env @ ''/'' @ GOARCH env,
      Compiler = runtime_Compiler env\<rparr>"

definition NewWithBranch :: "environment \<Rightarrow> string \<Rightarrow> string \<Rightarrow> string \<Rightarrow> string \<Rightarrow> Info" where
  "NewWithBranch env version commit buildDate branch =
     (let info = New env version commit buildDate in info\<lparr>Branch := branch\<rparr>)"

definition Default :: "environment \<Rightarrow> Info" where
  "Default env =
     NewWithBranch env (var_Version env) (var_Commit env) (var_BuildDate env) (var_Branch env)"

subsection \<open>Derived views\<close>

definition String :: "Info \<Rightarrow> string" where
  "String i =
     (if Commit i \<noteq> [] \<and> Commit i \<noteq> ''unknown'' then
        (let shortCommit = Commit i;
             shortCommit = (if length shortCommit > 7 then take 7 shortCommit else shortCommit)
         in Version i @ '' ('' @ shortCommit @ '')'')
      else Version i)"

definition Full :: "Info \<Rightarrow> string" where
  "Full i =
     (let result = ''Version:    '' @ Version i @ ''\<newline>'';
          result = (if Commit i \<noteq> [] \<and> Commit i \<noteq> ''unknown''
                    then result @ ''Commit:     '' @ Commit i @ ''\<newline>'' else result);
          result = (if Branch i \<noteq> []
                    then result @ ''Branch:     '' @ Branch i @ ''\<newline>'' else result);
          result = (if BuildDate i \<noteq> [] \<and> BuildDate i \<noteq> ''unknown''
                    then result @ ''Built:      '' @ BuildDate i @ ''\<newline>'' else result);
          result = result @ ''Go version: '' @ GoVersion i @ ''\<newline>'';
          result = result @ ''Platform:   '' @ Platform i @ ''\<newline>'';
          result = result @ ''Compiler:   '' @ Compiler i @ ''\<newline>''
      in result)"

text \<open>\<open>Validate\<close> returns \<open>nil\<close> (\<^const>\<open>None\<close>) or an error with its message.\<close>

definition Validate :: "Info \<Rightarrow> string option" where
  "Validate i = (if Version i = [] then Some ''version is required'' else None)"

definition IsDev :: "Info \<Rightarrow> bool" where
  "IsDev i = (Version i = ''dev'' \<or> Version i = ''development'' \<or> Version i = [])"

definition ShortCommit :: "Info \<Rightarrow> string" where
  "ShortCommit i =
     (if Commit i = [] \<or> Commit i = ''unknown'' then []
      else if length (Commit i) > 7 then take 7 (Commit i)
      else Commit i)"

subsection \<open>The builder\<close>

text \<open>
  A \<open>Builder\<close> owns one \<open>Info\<close>; each \<open>With*\<close> method assigns one field of it and returns
  the builder, \<open>Build\<close> hands the \<open>Info\<close> out.
\<close>

record Builder =
  info :: Info

definition NewBuilder :: "environment \<Rightarrow> Builder" where
  "NewBuilder env =
     \<lparr>info = \<lparr>Version = [], Commit = [], BuildDate = [], Branch = [],
               GoVersion = runtime_Version env,
               Platform = GOOS env @ ''/'' @ GOARCH env,
               Compiler = runtime_Compiler env\<rparr>\<rparr>"

definition WithVersion :: "Builder \<Rightarrow> string \<Rightarrow> Builder" where
  "WithVersion b version = b\<lparr>info := (info b)\<lparr>Version := version\<rparr>\<rparr>"

definition WithCommit :: "Builder \<Rightarrow> string \<Rightarrow> Builder" where
  "WithCommit b commit = b\<lparr>info := (info b)\<lparr>Commit := commit\<rparr>\<rparr>"

definition WithBuildDate :: "Builder \<Rightarrow> string \<Rightarrow> Builder" where
  "WithBuildDate b buildDate = b\<lparr>info := (info b)\<lparr>BuildDate := buildDate\<rparr>\<rparr>"

definition WithBranch :: "Builder \<Rightarrow> string \<Rightarrow> Builder" where
  "WithBranch b branch = b\<lparr>info := (info b)\<lparr>Branch := branch\<rparr>\<rparr>"

definition Build :: "Builder \<Rightarrow> Info" where
  "Build b = info b"

section \<open>JSON encoding of a flat struct\<close>

text \<open>
  \<open>JSON\<close>, \<open>JSONPretty\<close> and the JSON handlers hand the \<open>Info\<close> to Go's package
  \<open>encoding/json\<close>, which is a library and not part of this repository. It is modelled
  here as its documentation describes it for a struct without nesting: every field
  becomes one member of a JSON object under the name of its \<open>json\<close> tag, in declaration
  order; a field tagged \<open>omitempty\<close> is left out when it holds the empty value of its
  type; a value of a kind that JSON cannot express (a channel, a function) makes the
  encoder return an error. How a string value is quoted and escaped is the library's
  business and a parameter \<open>enc\<close> of the model.
\<close>

datatype go_value = GoString string | GoBool bool | GoChan | GoFunc

datatype struct_field =
  StructField (json_name: string) (omitempty: bool) (field_value: go_value)

fun isEmptyValue :: "go_value \<Rightarrow> bool" where
  "isEmptyValue (GoString s) = (length s = 0)"
| "isEmptyValue (GoBool b) = (\<not> b)"
| "isEmptyValue GoChan = False"
| "isEmptyValue GoFunc = False"

fun encode_value :: "(string \<Rightarrow> string) \<Rightarrow> go_value \<Rightarrow> string + string" where
  "encode_value enc (GoString s) = Inr (enc s)"
| "encode_value enc (GoBool b) = Inr (if b then ''true'' else ''false'')"
| "encode_value enc GoChan = Inl ''json: unsupported type: chan''"
| "encode_value enc GoFunc = Inl ''json: unsupported type: func''"

fun is_string :: "go_value \<Rightarrow> bool" where
  "is_string (GoString s) = True"
| "is_string v = False"

text \<open>
  The members the encoder emits for a struct, each a key with the text of its value, or
  the first error met.
\<close>

fun encode_members ::
  "(string \<Rightarrow> string) \<Rightarrow> struct_field list \<Rightarrow> string + (string \<times> string) list" where
  "encode_members enc [] = Inr []"
| "encode_members enc (f # fs) =
     (if omitempty f \<and> isEmptyValue (field_value f) then encode_members enc fs
      else (case encode_value enc (field_value f) of
              Inl err \<Rightarrow> Inl err
            | Inr text \<Rightarrow>
                (case encode_members enc fs of
                   Inl err \<Rightarrow> Inl err
                 | Inr ms \<Rightarrow> Inr ((json_name f, text) # ms))))"

fun join :: "string \<Rightarrow> string list \<Rightarrow> string" where
  "join sep [] = []"
| "join sep [x] = x"
| "join sep (x # y # ys) = x @ sep @ join sep (y # ys)"

definition compact_member :: "string \<times> string \<Rightarrow> string" where
  "compact_member m = [CHR 0x22] @ fst m @ [CHR 0x22] @ '':'' @ snd m"

definition compact_object :: "(string \<times> string) list \<Rightarrow> string" where
  "compact_object ms = ''{'' @ join '','' (map compact_member ms) @ ''}''"

definition indent_member :: "string \<Rightarrow> string \<Rightarrow> string \<times> string \<Rightarrow> string" where
  "indent_member prefix indent m =
     prefix @ indent @ [CHR 0x22] @ fst m @ [CHR 0x22] @ '': '' @ snd m"

definition indent_object :: "string \<Rightarrow> string \<Rightarrow> (string \<times> string) list \<Rightarrow> string" where
  "indent_object prefix indent ms =
     (if ms = [] then ''{}''
      else ''{'' @ ''\<newline>'' @
           join ('','' @ ''\<newline>'') (map (indent_member prefix indent) ms) @
           ''\<newline>'' @ prefix @ ''}'')"

definition json_Marshal :: "(string \<Rightarrow> string) \<Rightarrow> struct_field list \<Rightarrow> string + string" where
  "json_Marshal enc fs =
     (case encode_members enc fs of
        Inl err \<Rightarrow> Inl err
      | Inr ms \<Rightarrow> Inr (compact_object ms))"

definition json_MarshalIndent ::
  "(string \<Rightarrow> string) \<Rightarrow> struct_field list \<Rightarrow> string \<Rightarrow> string \<Rightarrow> string + string" where
  "json_MarshalIndent enc fs prefix indent =
     (case encode_members enc fs of
        Inl err \<Rightarrow> Inl err
      | Inr ms \<Rightarrow> Inr (indent_object prefix indent ms))"

text \<open>The struct \<open>Info\<close> as the encoder sees it: the tags of version.go, lines 32-50.\<close>

definition Info_fields :: "Info \<Rightarrow> struct_field list" where
  "Info_fields i =
     [StructField ''version'' False (GoString (Version i)),
      StructField ''commit'' True (GoString (Commit i)),
      StructField ''build_date'' True (GoString (BuildDate i)),
      StructField ''branch'' True (GoString (Branch i)),
      StructField ''go_version'' True (GoString (GoVersion i)),
      StructField ''platform'' True (GoString (Platform i)),
      StructField ''compiler'' True (GoString (Compiler i))]"

text \<open>The degraded object that \<open>JSON\<close> and \<open>JSONPretty\<close> format when the encoder fails.\<close>

definition degraded :: "Info \<Rightarrow> string \<Rightarrow> string" where
  \<open>degraded i err = ''{"version":"'' @ Version i @ ''","error":"'' @ err @ ''"}''\<close>

definition JSON :: "(string \<Rightarrow> string) \<Rightarrow> Info \<Rightarrow> string" where
  "JSON enc i =
     (case json_Marshal enc (Info_fields i) of
        Inl err \<Rightarrow> degraded i err
      | Inr data \<Rightarrow> data)"

definition JSONPretty :: "(string \<Rightarrow> string) \<Rightarrow> Info \<Rightarrow> string" where
  "JSONPretty enc i =
     (case json_MarshalIndent enc (Info_fields i) [] ''  '' of
        Inl err \<Rightarrow> degraded i err
      | Inr data \<Rightarrow> data)"

text \<open>\<open>Map\<close> builds a \<open>map[string]string\<close>; it is named \<open>Map_of\<close> here.\<close>

definition Map_of :: "Info \<Rightarrow> (string \<rightharpoonup> string)" where
  "Map_of i =
     (let m = [''version'' \<mapsto> Version i, ''go_version'' \<mapsto> GoVersion i,
               ''platform'' \<mapsto> Platform i, ''compiler'' \<mapsto> Compiler i];
          m = (if Commit i \<noteq> [] \<and> Commit i \<noteq> ''unknown'' then m(''commit'' \<mapsto> Commit i) else m);
          m = (if Branch i \<noteq> [] then m(''branch'' \<mapsto> Branch i) else m);
          m = (if BuildDate i \<noteq> [] \<and> BuildDate i \<noteq> ''unknown''
               then m(''build_date'' \<mapsto> BuildDate i) else m)
      in m)"

section \<open>Build timestamp\<close>







section \<open>HTTP exposure\<close>

text \<open>
  The two HTTP toolkits (\<open>net/http\<close> and Fiber) are libraries. What a handler does to its
  response is modelled on one record: the response headers, the status code and the
  body written so far.

  Both toolkits normalise a header name before they store a value under it or look one
  up: \<open>http.Header.Set\<close> and \<open>Get\<close> through \<open>textproto.CanonicalMIMEHeaderKey\<close>, Fiber's
  \<open>Ctx.Set\<close> through the header normalisation of \<open>fasthttp\<close>. The normalisation is the
  library's and a parameter \<open>canon\<close> of the model: \<open>Header_Set\<close> stores under the
  normalised name and \<open>Header_Get\<close> looks the normalised name up.
\<close>

record Response =
  header :: "string \<rightharpoonup> string"
  status :: nat
  body :: string

definition Header_Set ::
  "(string \<Rightarrow> string) \<Rightarrow> (string \<rightharpoonup> string) \<Rightarrow> string \<Rightarrow> string \<Rightarrow> (string \<rightharpoonup> string)" where
  "Header_Set canon h k v = h(canon k \<mapsto> v)"

definition Header_Get :: "(string \<Rightarrow> string) \<Rightarrow> (string \<rightharpoonup> string) \<Rightarrow> string \<Rightarrow> string option" where
  "Header_Get canon h k = h (canon k)"

record HandlerConfig =
  Info :: "Info option"
  Pretty :: bool
  IncludeHeaders :: bool
  HeaderPrefix :: string

definition DefaultHandlerConfig :: "environment \<Rightarrow> HandlerConfig" where
  "DefaultHandlerConfig env =
     \<lparr>Info = Some (Default env), Pretty = False, IncludeHeaders = False,
      HeaderPrefix = ''X-''\<rparr>"

subsection \<open>Header injection\<close>

definition setVersionHeaders ::
  "(string \<Rightarrow> string) \<Rightarrow> (string \<rightharpoonup> string) \<Rightarrow> Info \<Rightarrow> string \<Rightarrow> (string \<rightharpoonup> string)" where
  "setVersionHeaders canon h i prefix =
     (let h = Header_Set canon h (prefix @ ''Version'') (Version i);
          h = (if Commit i \<noteq> [] \<and> Commit i \<noteq> ''unknown''
               then Header_Set canon h (prefix @ ''Commit'') (ShortCommit i) else h);
          h = (if Branch i \<noteq> []
               then Header_Set canon h (prefix @ ''Branch'') (Branch i) else h);
          h = (if BuildDate i \<noteq> [] \<and> BuildDate i \<noteq> ''unknown''
               then Header_Set canon h (prefix @ ''Build-Date'') (BuildDate i) else h)
      in h)"

definition Ctx_Set :: "(string \<Rightarrow> string) \<Rightarrow> Response \<Rightarrow> string \<Rightarrow> string \<Rightarrow> Response" where
  "Ctx_Set canon c k v = c\<lparr>header := Header_Set canon (header c) k v\<rparr>"

definition setVersionHeadersFiber :: "(string \<Rightarrow> string) \<Rightarrow> Response \<Rightarrow> Info \<Rightarrow> string \<Rightarrow> Response" where
  "setVersionHeadersFiber canon c i prefix =
     (let c = Ctx_Set canon c (prefix @ ''Version'') (Version i);
          c = (if Commit i \<noteq> [] \<and> Commit i \<noteq> ''unknown''
               then Ctx_Set canon c (prefix @ ''Commit'') (ShortCommit i) else c);
          c = (if Branch i \<noteq> []
               then Ctx_Set canon c (prefix @ ''Branch'') (Branch i) else c);
          c = (if BuildDate i \<noteq> [] \<and> BuildDate i \<noteq> ''unknown''
               then Ctx_Set canon c (prefix @ ''Build-Date'') (BuildDate i) else c)
      in c)"

subsection \<open>The response operations of the toolkits\<close>

definition WriteHeader :: "Response \<Rightarrow> nat \<Rightarrow> Response" where
  "WriteHeader w code = w\<lparr>status := code\<rparr>"

definition Write :: "Response \<Rightarrow> string \<Rightarrow> Response" where
  "Write w data = w\<lparr>body := body w @ data\<rparr>"

text \<open>
  \<open>http.Error\<close> answers with a plain-text message: it sets the content type, forbids
  content sniffing, writes the code and the message followed by a newline.
\<close>

definition http_Error :: "(string \<Rightarrow> string) \<Rightarrow> Response \<Rightarrow> string \<Rightarrow> nat \<Rightarrow> Response" where
  "http_Error canon w msg code =
     (let w = w\<lparr>header :=
                 Header_Set canon (header w) ''Content-Type'' ''text/plain; charset=utf-8''\<rparr>;
          w = w\<lparr>header := Header_Set canon (header w) ''X-Content-Type-Options'' ''nosniff''\<rparr>;
          w = WriteHeader w code
      in Write w (msg @ ''\<newline>''))"

text \<open>
  Fiber's \<open>Ctx.JSON\<close> encodes with the application's JSON encoder, by default
  \<open>json.Marshal\<close>: on an error it returns the error and leaves the response alone,
  otherwise it sets the body and the JSON content type. \<open>Ctx.SendString\<close> sets the body.
  A Fiber handler returns the response with its error result (\<^const>\<open>None\<close> is \<open>nil\<close>).
\<close>

definition Ctx_JSON ::
  "(string \<Rightarrow> string) \<Rightarrow> (string \<Rightarrow> string) \<Rightarrow> Response \<Rightarrow> struct_field list \<Rightarrow> Response \<times> string option" where
  "Ctx_JSON enc canon c fs =
     (case json_Marshal enc fs of
        Inl err \<Rightarrow> (c, Some err)
      | Inr raw \<Rightarrow>
          (Ctx_Set canon (c\<lparr>body := raw\<rparr>) ''Content-Type'' ''application/json'', None))"

definition Ctx_SendString :: "Response \<Rightarrow> string \<Rightarrow> Response \<times> string option" where
  "Ctx_SendString c s = (c\<lparr>body := s\<rparr>, None)"

definition marshal_failed :: string where
  \<open>marshal_failed = ''{"error": "failed to marshal version info"}''\<close>

subsection \<open>Handlers and middleware\<close>

text \<open>
  A handler factory takes its variadic configuration as a list. The \<open>Info\<close> pointer of a
  configuration may be \<open>nil\<close> (\<^const>\<open>None\<close>); each factory replaces a \<open>nil\<close> by
  \<open>Default()\<close> before the handler it returns reads it. Next to the environment, a
  factory takes the string encoder of the JSON library (where it writes JSON) and the
  header normalisation of its toolkit.
\<close>

definition Handler ::
  "environment \<Rightarrow> (string \<Rightarrow> string) \<Rightarrow> (string \<Rightarrow> string) \<Rightarrow> HandlerConfig list \<Rightarrow> Response \<Rightarrow> Response" where
  "Handler env enc canon config =
     (let cfg = DefaultHandlerConfig env;
          cfg = (case config of [] \<Rightarrow> cfg | c # rest \<Rightarrow> c);
          cfg_Info = (case Info cfg of None \<Rightarrow> Default env | Some i \<Rightarrow> i);
          cfg = (if HeaderPrefix cfg = [] then cfg\<lparr>HeaderPrefix := ''X-''\<rparr> else cfg)
      in (\<lambda>w.
           let w = w\<lparr>header := Header_Set canon (header w) ''Content-Type'' ''application/json''\<rparr>;
               w = (if IncludeHeaders cfg
                    then w\<lparr>header :=
                           setVersionHeaders canon (header w) cfg_Info (HeaderPrefix cfg)\<rparr>
                    else w);
               output = (if Pretty cfg
                         then json_MarshalIndent enc (Info_fields cfg_Info) [] ''  ''
                         else json_Marshal enc (Info_fields cfg_Info))
           in (case output of
                 Inl err \<Rightarrow> http_Error canon w marshal_failed 500
               | Inr data \<Rightarrow> Write (WriteHeader w 200) data)))"

definition FiberHandler ::
  "environment \<Rightarrow> (string \<Rightarrow> string) \<Rightarrow> (string \<Rightarrow> string) \<Rightarrow> HandlerConfig list \<Rightarrow> Response \<Rightarrow> Response \<times> string option" where
  "FiberHandler env enc canon config =
     (let cfg = DefaultHandlerConfig env;
          cfg = (case config of [] \<Rightarrow> cfg | c # rest \<Rightarrow> c);
          cfg_Info = (case Info cfg of None \<Rightarrow> Default env | Some i \<Rightarrow> i);
          cfg = (if HeaderPrefix cfg = [] then cfg\<lparr>HeaderPrefix := ''X-''\<rparr> else cfg)
      in (\<lambda>c.
           let c = Ctx_Set canon c ''Content-Type'' ''application/json'';
               c = (if IncludeHeaders cfg
                    then setVersionHeadersFiber canon c cfg_Info (HeaderPrefix cfg)
                    else c)
           in (if Pretty cfg then Ctx_JSON enc canon c (Info_fields cfg_Info)
               else Ctx_JSON enc canon c (Info_fields cfg_Info))))"

definition Middleware ::
  "environment \<Rightarrow> (string \<Rightarrow> string) \<Rightarrow> Info option \<Rightarrow> string \<Rightarrow> (Response \<Rightarrow> Response) \<Rightarrow> Response \<Rightarrow> Response" where
  "Middleware env canon i prefix =
     (let i = (case i of None \<Rightarrow> Default env | Some x \<Rightarrow> x);
          prefix = (if prefix = [] then ''X-'' else prefix)
      in (\<lambda>next w. next (w\<lparr>header := setVersionHeaders canon (header w) i prefix\<rparr>)))"

definition FiberMiddleware ::
  "environment \<Rightarrow> (string \<Rightarrow> string) \<Rightarrow> Info option \<Rightarrow> string \<Rightarrow> (Response \<Rightarrow> Response \<times> string option) \<Rightarrow> Response \<Rightarrow> Response \<times> string option" where
  "FiberMiddleware env canon i prefix =
     (let i = (case i of None \<Rightarrow> Default env | Some x \<Rightarrow> x);
          prefix = (if prefix = [] then ''X-'' else prefix)
      in (\<lambda>next c. next (setVersionHeadersFiber canon c i prefix)))"

definition TextHandler ::
  "environment \<Rightarrow> (string \<Rightarrow> string) \<Rightarrow> HandlerConfig list \<Rightarrow> Response \<Rightarrow> Response" where
  "TextHandler env canon config =
     (let cfg = DefaultHandlerConfig env;
          cfg = (case config of [] \<Rightarrow> cfg | c # rest \<Rightarrow> c);
          cfg_Info = (case Info cfg of None \<Rightarrow> Default env | Some i \<Rightarrow> i)
      in (\<lambda>w.
           let w = w\<lparr>header :=
                      Header_Set canon (header w) ''Content-Type'' ''text/plain; charset=utf-8''\<rparr>;
               w = (if IncludeHeaders cfg
                    then w\<lparr>header :=
                           setVersionHeaders canon (header w) cfg_Info (HeaderPrefix cfg)\<rparr>
                    else w)
           in Write (WriteHeader w 200) (Full cfg_Info)))"

definition FiberTextHandler ::
  "environment \<Rightarrow> (string \<Rightarrow> string) \<Rightarrow> HandlerConfig list \<Rightarrow> Response \<Rightarrow> Response \<times> string option" where
  "FiberTextHandler env canon config =
     (let cfg = DefaultHandlerConfig env;
          cfg = (case config of [] \<Rightarrow> cfg | c # rest \<Rightarrow> c);
          cfg_Info = (case Info cfg of None \<Rightarrow> Default env | Some i \<Rightarrow> i)
      in (\<lambda>c.
           let c = Ctx_Set canon c ''Content-Type'' ''text/plain; charset=utf-8'';
               c = (if IncludeHeaders cfg
                    then setVersionHeadersFiber canon c cfg_Info (HeaderPrefix cfg)
                    else c)
           in Ctx_SendString c (Full cfg_Info)))"

definition SimpleHandler :: "environment \<Rightarrow> (string \<Rightarrow> string) \<Rightarrow> Response \<Rightarrow> Response" where
  "SimpleHandler env canon =
     (\<lambda>w. let w = w\<lparr>header :=
                       Header_Set canon (header w) ''Content-Type'' ''text/plain; charset=utf-8''\<rparr>
          in Write (WriteHeader w 200) (String (Default env)))"

definition FiberSimpleHandler ::
  "environment \<Rightarrow> (string \<Rightarrow> string) \<Rightarrow> Response \<Rightarrow> Response \<times> string option" where
  "FiberSimpleHandler env canon =
     (\<lambda>c. let c = Ctx_Set canon c ''Content-Type'' ''text/plain; charset=utf-8''
          in Ctx_SendString c (String (Default env)))"

section \<open>Sample values\<close>

definition linux_env :: environment where
  "linux_env = initial_vars ''go1.25'' ''linux'' ''amd64'' ''gc''"

definition info_of_commit :: "string \<Rightarrow> Info" where
  "info_of_commit c = New linux_env ''1.0.0'' c []"

text \<open>
  What the string encoder of \<open>encoding/json\<close> writes for a string of printable ASCII
  characters without quotation mark, backslash, angle brackets and ampersand: the string
  between quotation marks. It stands for the encoder in the concrete examples.
\<close>

definition quote_plain :: "string \<Rightarrow> string" where
  "quote_plain s = [CHR 0x22] @ s @ [CHR 0x22]"


definition full_info :: Info where
  "full_info = NewWithBranch linux_env ''1.0.0'' ''abc1234567890'' ''2025-01-01T00:00:00Z'' ''main''"

text \<open>A response nothing has been written to: no header, the default status, no body.\<close>

definition fresh :: Response where
  "fresh = \<lparr>header = Map.empty, status = 200, body = []\<rparr>"

definition empty_prefix_config :: HandlerConfig where
  "empty_prefix_config =
     \<lparr>Info = Some (info_of_commit []), Pretty = False, IncludeHeaders = True,
      HeaderPrefix = []\<rparr>"

definition pretty_config :: HandlerConfig where
  "pretty_config =
     \<lparr>Info = Some (info_of_commit ''abc123''), Pretty = True, IncludeHeaders = False,
      HeaderPrefix = []\<rparr>"

definition abc123_compact :: string where
  \<open>abc123_compact =
     ''{"version":"1.0.0","commit":"abc123","go_version":"go1.25","platform":"linux/amd64","compiler":"gc"}''\<close>

definition abc123_indented :: string where
  \<open>abc123_indented =
     ''{\<newline>  "version": "1.0.0",\<newline>  "commit": "abc123",\<newline>  "go_version": "go1.25",\<newline>  "platform": "linux/amd64",\<newline>  "compiler": "gc"\<newline>}''\<close>

definition unknown_compact :: string where
  \<open>unknown_compact =
     ''{"version":"1.0.0","commit":"unknown","go_version":"go1.25","platform":"linux/amd64","compiler":"gc"}''\<close>

text \<open>
  The header normalisation in the concrete examples, after
  \<open>textproto.CanonicalMIMEHeaderKey\<close> as its documentation describes it: a name that
  holds a byte which is not a token character is left as it is; otherwise the first
  letter and every letter that follows a hyphen become upper case and every other letter
  lower case.
\<close>

definition lower_letters :: string where
  "lower_letters = ''abcdefghijklmnopqrstuvwxyz''"

definition upper_letters :: string where
  "upper_letters = ''ABCDEFGHIJKLMNOPQRSTUVWXYZ''"

definition to_upper :: "char \<Rightarrow> char" where
  "to_upper c = (case map_of (zip lower_letters upper_letters) c of Some u \<Rightarrow> u | None \<Rightarrow> c)"

definition to_lower :: "char \<Rightarrow> char" where
  "to_lower c = (case map_of (zip upper_letters lower_letters) c of Some l \<Rightarrow> l | None \<Rightarrow> c)"

definition validHeaderFieldByte :: "char \<Rightarrow> bool" where
  "validHeaderFieldByte c =
     (c \<in> set lower_letters \<or> c \<in> set upper_letters \<or> c \<in> set ''0123456789'' \<or>
      c \<in> set ''!#$%&*+-.^_|~'' \<or> c = CHR 0x27 \<or> c = CHR 0x60)"

fun canonical_from :: "bool \<Rightarrow> string \<Rightarrow> string" where
  "canonical_from upper [] = []"
| "canonical_from upper (c # cs) =
     (let c = (if upper then to_upper c else to_lower c)
      in c # canonical_from (c = CHR ''-'') cs)"

definition CanonicalMIMEHeaderKey :: "string \<Rightarrow> string" where
  "CanonicalMIMEHeaderKey s =
     (if list_all validHeaderFieldByte s then canonical_from True s else s)"



section \<open>Properties of the version-information model\<close>

text \<open>
  C1 (as stated): a commit of length at most 7 is returned unchanged by \<open>ShortCommit\<close>.
  The sentinel \<open>unknown\<close> has exactly 7 characters and \<open>ShortCommit\<close> answers the empty
  string for it, so the statement fails there.
\<close>

theorem ShortCommit_unknown_counterexample:
  "\<not> (length (Commit (info_of_commit ''unknown'')) \<le> 7 \<longrightarrow>
        ShortCommit (info_of_commit ''unknown'') = Commit (info_of_commit ''unknown''))"
  by (simp add: ShortCommit_def info_of_commit_def New_def)

text \<open>
  C1 (amended): for every stored commit \<open>c\<close> other than the sentinel \<open>unknown\<close>,
  \<open>ShortCommit\<close> returns \<open>c\<close> unchanged when \<open>c\<close> has at most 7 characters; for every \<open>c\<close>
  longer than 7 characters it returns the first 7 characters; and for the sentinel
  \<open>unknown\<close> it returns the empty string.
\<close>

theorem ShortCommit_cases:
  "(Commit i \<noteq> ''unknown'' \<and> length (Commit i) \<le> 7 \<longrightarrow> ShortCommit i = Commit i) \<and>
   (7 < length (Commit i) \<longrightarrow> ShortCommit i = take 7 (Commit i)) \<and>
   (Commit i = ''unknown'' \<longrightarrow> ShortCommit i = [])"
proof (intro conjI impI)
  assume "Commit i \<noteq> ''unknown'' \<and> length (Commit i) \<le> 7"
  then show "ShortCommit i = Commit i"
    by (auto simp: ShortCommit_def)
next
  assume long: "7 < length (Commit i)"
  then have "Commit i \<noteq> []" and "Commit i \<noteq> ''unknown''"
    by auto
  with long show "ShortCommit i = take 7 (Commit i)"
    by (simp add: ShortCommit_def)
next
  assume "Commit i = ''unknown''"
  then show "ShortCommit i = []"
    by (simp add: ShortCommit_def)
qed

theorem ShortCommit_cases_witness:
  "(Commit (info_of_commit ''abc'') \<noteq> ''unknown'' \<and>
    length (Commit (info_of_commit ''abc'')) \<le> 7 \<and>
    ShortCommit (info_of_commit ''abc'') = ''abc'') \<and>
   (7 < length (Commit (info_of_commit ''abc1234567890def'')) \<and>
    ShortCommit (info_of_commit ''abc1234567890def'') = ''abc1234'') \<and>
   (Commit (info_of_commit ''unknown'') = ''unknown'' \<and>
    ShortCommit (info_of_commit ''unknown'') = [])"
  using ShortCommit_cases [of "info_of_commit ''abc''"]
    ShortCommit_cases [of "info_of_commit ''abc1234567890def''"]
    ShortCommit_cases [of "info_of_commit ''unknown''"]
  by (simp add: info_of_commit_def New_def)

text \<open>
  C6: \<open>String\<close> returns exactly the version when the commit is absent (empty or
  \<open>unknown\<close>); otherwise it returns the version followed by the short commit in
  parentheses, the short commit being the commit cut to 7 characters. In particular
  version \<open>1.0.0\<close> with commit \<open>abc1234567890\<close> displays as \<open>1.0.0 (abc1234)\<close>.
\<close>

theorem String_display:
  "(Commit i = [] \<or> Commit i = ''unknown'' \<longrightarrow> String i = Version i) \<and>
   (Commit i \<noteq> [] \<and> Commit i \<noteq> ''unknown'' \<longrightarrow>
      String i = Version i @ '' ('' @ ShortCommit i @ '')'' \<and>
      ShortCommit i = take 7 (Commit i)) \<and>
   String (New env ''1.0.0'' ''abc1234567890'' []) = ''1.0.0 (abc1234)''"
proof (intro conjI impI)
  assume "Commit i = [] \<or> Commit i = ''unknown''"
  then show "String i = Version i"
    by (auto simp: String_def)
next
  assume present: "Commit i \<noteq> [] \<and> Commit i \<noteq> ''unknown''"
  then show "String i = Version i @ '' ('' @ ShortCommit i @ '')''"
    by (simp add: String_def ShortCommit_def Let_def)
  from present show "ShortCommit i = take 7 (Commit i)"
    by (simp add: ShortCommit_def)
next
  show "String (New env ''1.0.0'' ''abc1234567890'' []) = ''1.0.0 (abc1234)''"
    by (simp add: String_def New_def Let_def)
qed

theorem String_display_witness:
  "(Commit (info_of_commit []) = [] \<and> String (info_of_commit []) = ''1.0.0'') \<and>
   (Commit (info_of_commit ''abc123'') \<noteq> [] \<and>
    Commit (info_of_commit ''abc123'') \<noteq> ''unknown'' \<and>
    String (info_of_commit ''abc123'') = ''1.0.0 (abc123)'') \<and>
   String (New linux_env ''1.0.0'' ''abc1234567890'' []) = ''1.0.0 (abc1234)''"
  using String_display [of "info_of_commit []" linux_env]
    String_display [of "info_of_commit ''abc123''" linux_env]
  by (simp add: info_of_commit_def New_def ShortCommit_def)

text \<open>
  C8: \<open>Validate\<close> returns an error if and only if the version field is the empty
  string; the values of the six other fields never change its answer.
\<close>

theorem Validate_iff_empty_version:
  "(Validate i \<noteq> None) = (Version i = []) \<and>
   Validate (i\<lparr>Commit := c, BuildDate := d, Branch := b, GoVersion := g,
               Platform := p, Compiler := k\<rparr>) = Validate i"
  by (simp add: Validate_def)

text \<open>
  C9: the fluent builder, given a version, a commit, a build date and a branch in that
  order, builds the same record as \<open>NewWithBranch\<close> on the same four strings, the three
  runtime-derived fields included.
\<close>

theorem Builder_equals_NewWithBranch:
  "Build (WithBranch (WithBuildDate (WithCommit (WithVersion (NewBuilder env) v) c) d) b)
     = NewWithBranch env v c d b"
  by (simp add: Build_def WithBranch_def WithBuildDate_def WithCommit_def WithVersion_def
      NewBuilder_def NewWithBranch_def New_def)

section \<open>Properties of the JSON serialisation\<close>

text \<open>The members that the encoder emits for an \<open>Info\<close>, whatever the string encoder.\<close>

lemma Info_members:
  "encode_members enc (Info_fields i) =
     Inr ((''version'', enc (Version i)) #
          (if Commit i = [] then [] else [(''commit'', enc (Commit i))]) @
          (if BuildDate i = [] then [] else [(''build_date'', enc (BuildDate i))]) @
          (if Branch i = [] then [] else [(''branch'', enc (Branch i))]) @
          (if GoVersion i = [] then [] else [(''go_version'', enc (GoVersion i))]) @
          (if Platform i = [] then [] else [(''platform'', enc (Platform i))]) @
          (if Compiler i = [] then [] else [(''compiler'', enc (Compiler i))]))"
  by (simp add: Info_fields_def)

text \<open>
  C2 (as stated): the JSON object has the key of an optional field exactly when the
  field is neither empty nor \<open>unknown\<close>. With the commit \<open>unknown\<close> the key \<open>commit\<close> is
  emitted all the same, with the value \<open>unknown\<close>.
\<close>

theorem JSON_unknown_commit_counterexample:
  "Commit (info_of_commit ''unknown'') = ''unknown'' \<and>
   encode_members quote_plain (Info_fields (info_of_commit ''unknown'')) =
     Inr [(''version'', quote_plain ''1.0.0''), (''commit'', quote_plain ''unknown''),
          (''go_version'', quote_plain ''go1.25''), (''platform'', quote_plain ''linux/amd64''),
          (''compiler'', quote_plain ''gc'')] \<and>
   JSON quote_plain (info_of_commit ''unknown'') = unknown_compact"
  by (simp add: JSON_def json_Marshal_def compact_object_def compact_member_def
      quote_plain_def unknown_compact_def info_of_commit_def New_def Info_fields_def
      linux_env_def initial_vars_def)

text \<open>\<open>Map\<close>, unlike the JSON encoder, has its own guard against the sentinel.\<close>

lemma Map_of_commit_key:
  "(''commit'' \<in> dom (Map_of i)) = (Commit i \<noteq> [] \<and> Commit i \<noteq> ''unknown'')"
  by (simp add: Map_of_def Let_def)

text \<open>
  C2 (amended): for every \<open>Info\<close>, \<open>JSON\<close> and \<open>JSONPretty\<close> render one and the same list of
  members, and that list has the key \<open>commit\<close>, \<open>build_date\<close> or \<open>branch\<close> if and only if
  the field is not the empty string. The sentinel \<open>unknown\<close> is a value like any other
  for the serialisation; only an empty optional field is left out.
\<close>

theorem JSON_optional_keys:
  "\<exists>ms. encode_members enc (Info_fields i) = Inr ms \<and>
     JSON enc i = compact_object ms \<and>
     JSONPretty enc i = indent_object [] ''  '' ms \<and>
     (''commit'' \<in> set (map fst ms)) = (Commit i \<noteq> []) \<and>
     (''build_date'' \<in> set (map fst ms)) = (BuildDate i \<noteq> []) \<and>
     (''branch'' \<in> set (map fst ms)) = (Branch i \<noteq> [])"
proof -
  define ms where "ms = (''version'', enc (Version i)) #
          (if Commit i = [] then [] else [(''commit'', enc (Commit i))]) @
          (if BuildDate i = [] then [] else [(''build_date'', enc (BuildDate i))]) @
          (if Branch i = [] then [] else [(''branch'', enc (Branch i))]) @
          (if GoVersion i = [] then [] else [(''go_version'', enc (GoVersion i))]) @
          (if Platform i = [] then [] else [(''platform'', enc (Platform i))]) @
          (if Compiler i = [] then [] else [(''compiler'', enc (Compiler i))])"
  have ms: "encode_members enc (Info_fields i) = Inr ms"
    unfolding ms_def by (rule Info_members)
  have compact: "JSON enc i = compact_object ms"
    using ms by (simp add: JSON_def json_Marshal_def)
  have indented: "JSONPretty enc i = indent_object [] ''  '' ms"
    using ms by (simp add: JSONPretty_def json_MarshalIndent_def)
  have commit: "(''commit'' \<in> set (map fst ms)) = (Commit i \<noteq> [])"
    unfolding ms_def by simp
  have build_date: "(''build_date'' \<in> set (map fst ms)) = (BuildDate i \<noteq> [])"
    unfolding ms_def by simp
  have branch: "(''branch'' \<in> set (map fst ms)) = (Branch i \<noteq> [])"
    unfolding ms_def by simp
  from ms compact indented commit build_date branch show ?thesis
    by (intro exI [of _ ms] conjI)
qed

text \<open>
  The encoder does fail on other structs, and it succeeds on every struct whose fields
  are all strings.
\<close>

lemma json_Marshal_rejects_channel:
  "json_Marshal enc [StructField ''done'' False GoChan] = Inl ''json: unsupported type: chan''"
  by (simp add: json_Marshal_def)

lemma encode_members_strings:
  assumes "list_all (\<lambda>f. is_string (field_value f)) fs"
  shows "\<exists>ms. encode_members enc fs = Inr ms"
  using assms
proof (induction fs)
  case Nil
  then show ?case by simp
next
  case (Cons f fs)
  then obtain s where s: "field_value f = GoString s"
    by (cases "field_value f") auto
  from Cons obtain ms where ms: "encode_members enc fs = Inr ms"
    by auto
  show ?case using s ms by simp
qed

lemma Info_fields_strings: "list_all (\<lambda>f. is_string (field_value f)) (Info_fields i)"
  by (simp add: Info_fields_def)

text \<open>
  C10: the error branch of \<open>JSON\<close> and of \<open>JSONPretty\<close> is never taken. For every \<open>Info\<close>
  the encoder succeeds, compact and indented, and the two methods return what it
  produced, not the degraded object.
\<close>

theorem JSON_never_degraded:
  "\<exists>data pretty.
     json_Marshal enc (Info_fields i) = Inr data \<and> JSON enc i = data \<and>
     json_MarshalIndent enc (Info_fields i) [] ''  '' = Inr pretty \<and> JSONPretty enc i = pretty"
proof -
  from encode_members_strings [OF Info_fields_strings] obtain ms
    where "encode_members enc (Info_fields i) = Inr ms" by blast
  then show ?thesis
    by (simp add: JSON_def JSONPretty_def json_Marshal_def json_MarshalIndent_def)
qed

section \<open>Properties of the HTTP exposure\<close>

subsection \<open>Header injection\<close>

lemma setVersionHeadersFiber_header:
  "header (setVersionHeadersFiber canon c i p) = setVersionHeaders canon (header c) i p"
  by (simp add: setVersionHeadersFiber_def setVersionHeaders_def Ctx_Set_def Let_def)

text \<open>
  The sample normalisation keeps the four header names of one prefix apart, whatever the
  prefix.
\<close>

lemma canonical_from_Nil: "(canonical_from b p = []) = (p = [])"
  by (cases p) (simp_all add: Let_def)

lemma canonical_from_append:
  "canonical_from b (p @ s) =
     canonical_from b p @
     canonical_from (if p = [] then b else last (canonical_from b p) = CHR ''-'') s"
  by (induction p arbitrary: b) (simp_all add: Let_def canonical_from_Nil)

lemma suffixes_valid:
  "list_all validHeaderFieldByte ''Version''" "list_all validHeaderFieldByte ''Commit''"
  "list_all validHeaderFieldByte ''Branch''" "list_all validHeaderFieldByte ''Build-Date''"
  by (simp_all add: validHeaderFieldByte_def lower_letters_def upper_letters_def)

lemma canonical_suffixes_distinct:
  "distinct (map (canonical_from b) [''Version'', ''Commit'', ''Branch'', ''Build-Date''])"
  by (cases b) (simp_all add: to_upper_def to_lower_def lower_letters_def upper_letters_def Let_def)

lemma CanonicalMIMEHeaderKey_separates:
  "distinct (map CanonicalMIMEHeaderKey
     [p @ ''Version'', p @ ''Commit'', p @ ''Branch'', p @ ''Build-Date''])"
proof (cases "list_all validHeaderFieldByte p")
  case True
  define b where "b = (if p = [] then True else last (canonical_from True p) = CHR ''-'')"
  have "CanonicalMIMEHeaderKey (p @ s) = canonical_from True p @ canonical_from b s"
    if "list_all validHeaderFieldByte s" for s
    using True that by (simp add: CanonicalMIMEHeaderKey_def canonical_from_append b_def)
  with suffixes_valid canonical_suffixes_distinct [of b] show ?thesis
    by simp
next
  case False
  then show ?thesis
    by (simp add: CanonicalMIMEHeaderKey_def)
qed

text \<open>
  C5: for every \<open>Info\<close>, prefix and header store, header injection sets the header
  \<open>{prefix}Version\<close> to the version in every case; it sets \<open>{prefix}Commit\<close> to
  \<open>ShortCommit\<close> when the commit is neither empty nor \<open>unknown\<close> and leaves that header
  alone otherwise; it sets \<open>{prefix}Branch\<close> to the branch when the branch is not empty
  and leaves it alone otherwise; it sets \<open>{prefix}Build-Date\<close> to the build date as it is
  when the build date is neither empty nor \<open>unknown\<close> and leaves it alone otherwise. On
  an empty header store each of the three optional headers is present afterwards if and
  only if its field is present. The Fiber variant sets the same headers. A header is
  stored and looked up under its normalised name; that the library's normalisation keeps
  the four names of the prefix apart is the assumption.
\<close>

theorem setVersionHeaders_writes:
  assumes separate:
    "distinct (map canon [p @ ''Version'', p @ ''Commit'', p @ ''Branch'', p @ ''Build-Date''])"
  shows
  "Header_Get canon (setVersionHeaders canon h i p) (p @ ''Version'') = Some (Version i) \<and>
   (Commit i \<noteq> [] \<and> Commit i \<noteq> ''unknown'' \<longrightarrow>
      Header_Get canon (setVersionHeaders canon h i p) (p @ ''Commit'') = Some (ShortCommit i)) \<and>
   (Commit i = [] \<or> Commit i = ''unknown'' \<longrightarrow>
      Header_Get canon (setVersionHeaders canon h i p) (p @ ''Commit'') =
        Header_Get canon h (p @ ''Commit'')) \<and>
   (Branch i \<noteq> [] \<longrightarrow>
      Header_Get canon (setVersionHeaders canon h i p) (p @ ''Branch'') = Some (Branch i)) \<and>
   (Branch i = [] \<longrightarrow>
      Header_Get canon (setVersionHeaders canon h i p) (p @ ''Branch'') =
        Header_Get canon h (p @ ''Branch'')) \<and>
   (BuildDate i \<noteq> [] \<and> BuildDate i \<noteq> ''unknown'' \<longrightarrow>
      Header_Get canon (setVersionHeaders canon h i p) (p @ ''Build-Date'') =
        Some (BuildDate i)) \<and>
   (BuildDate i = [] \<or> BuildDate i = ''unknown'' \<longrightarrow>
      Header_Get canon (setVersionHeaders canon h i p) (p @ ''Build-Date'') =
        Header_Get canon h (p @ ''Build-Date'')) \<and>
   (canon (p @ ''Commit'') \<in> dom (setVersionHeaders canon Map.empty i p)) =
      (Commit i \<noteq> [] \<and> Commit i \<noteq> ''unknown'') \<and>
   (canon (p @ ''Branch'') \<in> dom (setVersionHeaders canon Map.empty i p)) = (Branch i \<noteq> []) \<and>
   (canon (p @ ''Build-Date'') \<in> dom (setVersionHeaders canon Map.empty i p)) =
      (BuildDate i \<noteq> [] \<and> BuildDate i \<noteq> ''unknown'') \<and>
   header (setVersionHeadersFiber canon c i p) = setVersionHeaders canon (header c) i p"
proof -
  from separate have ne:
    "canon (p @ ''Version'') \<noteq> canon (p @ ''Commit'')"
    "canon (p @ ''Version'') \<noteq> canon (p @ ''Branch'')"
    "canon (p @ ''Version'') \<noteq> canon (p @ ''Build-Date'')"
    "canon (p @ ''Commit'') \<noteq> canon (p @ ''Branch'')"
    "canon (p @ ''Commit'') \<noteq> canon (p @ ''Build-Date'')"
    "canon (p @ ''Branch'') \<noteq> canon (p @ ''Build-Date'')"
    by auto
  note ne' = ne ne [symmetric]
  show ?thesis
    by (simp add: setVersionHeaders_def setVersionHeadersFiber_header Header_Set_def
        Header_Get_def Let_def ne')
qed

theorem setVersionHeaders_writes_witness:
  "distinct (map CanonicalMIMEHeaderKey
     [''x-app-'' @ ''Version'', ''x-app-'' @ ''Commit'', ''x-app-'' @ ''Branch'',
      ''x-app-'' @ ''Build-Date'']) \<and>
   Header_Get CanonicalMIMEHeaderKey
     (setVersionHeaders CanonicalMIMEHeaderKey Map.empty full_info ''x-app-'') ''x-app-Version'' =
     Some ''1.0.0'' \<and>
   setVersionHeaders CanonicalMIMEHeaderKey Map.empty full_info ''x-app-'' ''X-App-Version'' =
     Some ''1.0.0'' \<and>
   (Commit full_info \<noteq> [] \<and> Commit full_info \<noteq> ''unknown'' \<and>
    Header_Get CanonicalMIMEHeaderKey
      (setVersionHeaders CanonicalMIMEHeaderKey Map.empty full_info ''x-app-'') ''x-app-Commit'' =
      Some ''abc1234'') \<and>
   (Branch full_info \<noteq> [] \<and>
    Header_Get CanonicalMIMEHeaderKey
      (setVersionHeaders CanonicalMIMEHeaderKey Map.empty full_info ''x-app-'') ''x-app-Branch'' =
      Some ''main'') \<and>
   (BuildDate full_info \<noteq> [] \<and> BuildDate full_info \<noteq> ''unknown'' \<and>
    Header_Get CanonicalMIMEHeaderKey
      (setVersionHeaders CanonicalMIMEHeaderKey Map.empty full_info ''x-app-'')
      ''x-app-Build-Date'' = Some ''2025-01-01T00:00:00Z'') \<and>
   (Commit (info_of_commit ''unknown'') = ''unknown'' \<and>
    Header_Get CanonicalMIMEHeaderKey
      (setVersionHeaders CanonicalMIMEHeaderKey Map.empty (info_of_commit ''unknown'') ''x-app-'')
      ''x-app-Commit'' = None) \<and>
   (Branch (info_of_commit ''unknown'') = [] \<and>
    Header_Get CanonicalMIMEHeaderKey
      (setVersionHeaders CanonicalMIMEHeaderKey Map.empty (info_of_commit ''unknown'') ''x-app-'')
      ''x-app-Branch'' = None) \<and>
   (BuildDate (info_of_commit ''unknown'') = [] \<and>
    Header_Get CanonicalMIMEHeaderKey
      (setVersionHeaders CanonicalMIMEHeaderKey Map.empty (info_of_commit ''unknown'') ''x-app-'')
      ''x-app-Build-Date'' = None)"
proof -
  have separate: "distinct (map CanonicalMIMEHeaderKey
     [''x-app-'' @ ''Version'', ''x-app-'' @ ''Commit'', ''x-app-'' @ ''Branch'',
      ''x-app-'' @ ''Build-Date''])"
    by (simp add: CanonicalMIMEHeaderKey_def validHeaderFieldByte_def to_upper_def
        to_lower_def lower_letters_def upper_letters_def Let_def)
  have keys: "CanonicalMIMEHeaderKey ''x-app-Version'' = ''X-App-Version''"
    "CanonicalMIMEHeaderKey ''x-app-Commit'' = ''X-App-Commit''"
    "CanonicalMIMEHeaderKey ''x-app-Branch'' = ''X-App-Branch''"
    "CanonicalMIMEHeaderKey ''x-app-Build-Date'' = ''X-App-Build-Date''"
    by (simp_all add: CanonicalMIMEHeaderKey_def validHeaderFieldByte_def to_upper_def
        to_lower_def lower_letters_def upper_letters_def Let_def)
  show ?thesis
    using separate
      setVersionHeaders_writes [OF separate, of Map.empty full_info fresh]
      setVersionHeaders_writes [OF separate, of Map.empty "info_of_commit ''unknown''" fresh]
    by (simp add: full_info_def info_of_commit_def NewWithBranch_def New_def ShortCommit_def
        Header_Get_def keys)
qed


subsection \<open>The empty header prefix\<close>

text \<open>
  The JSON handlers and the middleware of both toolkits replace an empty prefix by
  \<open>X-\<close>: they answer as for the configuration with the prefix \<open>X-\<close>.
\<close>

lemma empty_prefix_substituted:
  "HeaderPrefix cfg = [] \<Longrightarrow>
     Handler env enc canon (cfg # cfgs) w =
       Handler env enc canon (cfg\<lparr>HeaderPrefix := ''X-''\<rparr> # cfgs) w"
  "HeaderPrefix cfg = [] \<Longrightarrow>
     FiberHandler env enc canon (cfg # cfgs) w =
       FiberHandler env enc canon (cfg\<lparr>HeaderPrefix := ''X-''\<rparr> # cfgs) w"
  "Middleware env canon i [] = Middleware env canon i ''X-''"
  "FiberMiddleware env canon i [] = FiberMiddleware env canon i ''X-''"
  by (simp_all add: Handler_def FiberHandler_def Middleware_def FiberMiddleware_def Let_def
      split: sum.splits)

lemma canonical_sample_keys:
  "CanonicalMIMEHeaderKey ''Content-Type'' = ''Content-Type''"
  "CanonicalMIMEHeaderKey ''Version'' = ''Version''"
  "CanonicalMIMEHeaderKey ''X-Version'' = ''X-Version''"
  by (simp_all add: CanonicalMIMEHeaderKey_def validHeaderFieldByte_def to_upper_def
      to_lower_def lower_letters_def upper_letters_def Let_def)

text \<open>
  C3: every handler that takes a configuration replaces an empty \<open>HeaderPrefix\<close> by
  \<open>X-\<close>. The two text handlers do not: with the headers included and the prefix empty,
  \<open>TextHandler\<close> and \<open>FiberTextHandler\<close> set the header \<open>Version\<close> and no header
  \<open>X-Version\<close>, where \<open>Handler\<close> and \<open>FiberHandler\<close> set \<open>X-Version\<close> on the same
  configuration. Both names are in normalised form already.
\<close>

theorem TextHandler_keeps_empty_prefix:
  "header (TextHandler linux_env CanonicalMIMEHeaderKey [empty_prefix_config] fresh)
     ''X-Version'' = None \<and>
   header (TextHandler linux_env CanonicalMIMEHeaderKey [empty_prefix_config] fresh)
     ''Version'' = Some ''1.0.0'' \<and>
   header (fst (FiberTextHandler linux_env CanonicalMIMEHeaderKey [empty_prefix_config] fresh))
     ''X-Version'' = None \<and>
   header (fst (FiberTextHandler linux_env CanonicalMIMEHeaderKey [empty_prefix_config] fresh))
     ''Version'' = Some ''1.0.0'' \<and>
   header (Handler linux_env quote_plain CanonicalMIMEHeaderKey [empty_prefix_config] fresh)
     ''X-Version'' = Some ''1.0.0'' \<and>
   header (fst (FiberHandler linux_env quote_plain CanonicalMIMEHeaderKey [empty_prefix_config]
     fresh)) ''X-Version'' = Some ''1.0.0''"
  by (simp add: TextHandler_def FiberTextHandler_def Handler_def FiberHandler_def
      DefaultHandlerConfig_def setVersionHeaders_def setVersionHeadersFiber_def Ctx_Set_def
      Header_Set_def canonical_sample_keys
      Ctx_SendString_def Ctx_JSON_def json_Marshal_def Info_fields_def Write_def
      WriteHeader_def fresh_def empty_prefix_config_def info_of_commit_def New_def
      linux_env_def initial_vars_def Let_def)

subsection \<open>The body of the JSON handlers\<close>

lemma join_Cons: "join sep (x # xs) = x @ (if xs = [] then [] else sep @ join sep xs)"
  by (cases xs) simp_all

lemma compact_object_second: "compact_object (m # ms) ! 1 = CHR 0x22"
  by (simp add: compact_object_def compact_member_def join_Cons)

lemma indent_object_second: "indent_object [] ind (m # ms) ! 1 = CHR 0x0A"
  by (simp add: indent_object_def)

lemma compact_neq_indent: "compact_object (m # ms) \<noteq> indent_object [] ind (m # ms)"
proof
  assume "compact_object (m # ms) = indent_object [] ind (m # ms)"
  then have "compact_object (m # ms) ! 1 = indent_object [] ind (m # ms) ! 1"
    by simp
  then show False
    by (simp only: compact_object_second indent_object_second) simp
qed

lemma JSON_neq_JSONPretty: "JSON enc i \<noteq> JSONPretty enc i"
  by (simp add: JSON_def JSONPretty_def json_Marshal_def json_MarshalIndent_def Info_members
      compact_neq_indent del: append.simps)

lemma Handler_body:
  "body (Handler env enc canon (cfg # cfgs) w) =
     body w @
     (if Pretty cfg
      then JSONPretty enc (case Info cfg of None \<Rightarrow> Default env | Some i \<Rightarrow> i)
      else JSON enc (case Info cfg of None \<Rightarrow> Default env | Some i \<Rightarrow> i))"
  by (simp add: Handler_def JSON_def JSONPretty_def json_Marshal_def json_MarshalIndent_def
      Info_members Write_def WriteHeader_def Let_def)

lemma FiberHandler_body:
  "body (fst (FiberHandler env enc canon (cfg # cfgs) c)) =
     JSON enc (case Info cfg of None \<Rightarrow> Default env | Some i \<Rightarrow> i)"
  by (simp add: FiberHandler_def JSON_def json_Marshal_def Ctx_JSON_def Ctx_Set_def
      setVersionHeadersFiber_def Info_members Let_def)

text \<open>
  On a response without a body the two JSON handlers agree when \<open>Pretty\<close> is off and
  differ, for every \<open>Info\<close>, when it is on.
\<close>

lemma handlers_bodies:
  "body w = [] \<Longrightarrow> \<not> Pretty cfg \<Longrightarrow>
     body (Handler env enc canon (cfg # cfgs) w) =
       body (fst (FiberHandler env enc canon' (cfg # cfgs) w))"
  "body w = [] \<Longrightarrow> Pretty cfg \<Longrightarrow>
     body (Handler env enc canon (cfg # cfgs) w) \<noteq>
       body (fst (FiberHandler env enc canon' (cfg # cfgs) w))"
  using JSON_neq_JSONPretty [of enc "case Info cfg of None \<Rightarrow> Default env | Some i \<Rightarrow> i"]
  by (simp_all only: Handler_body FiberHandler_body) auto

text \<open>
  C4: the JSON handler writes the \<open>Info\<close> indented by two spaces when \<open>Pretty\<close> is set and
  compact when it is not, the same in both toolkits. With \<open>Pretty\<close> set, \<open>Handler\<close> writes
  the indented text and \<open>FiberHandler\<close> the compact one: the bodies differ.
\<close>

theorem FiberHandler_ignores_Pretty:
  "body (Handler linux_env quote_plain CanonicalMIMEHeaderKey [pretty_config] fresh) =
     abc123_indented \<and>
   body (fst (FiberHandler linux_env quote_plain CanonicalMIMEHeaderKey [pretty_config] fresh)) =
     abc123_compact \<and>
   body (Handler linux_env quote_plain CanonicalMIMEHeaderKey [pretty_config] fresh) \<noteq>
     body (fst (FiberHandler linux_env quote_plain CanonicalMIMEHeaderKey [pretty_config] fresh))"
  by (simp add: Handler_def FiberHandler_def DefaultHandlerConfig_def Ctx_Set_def Ctx_JSON_def
      json_Marshal_def json_MarshalIndent_def Info_fields_def Write_def WriteHeader_def
      compact_object_def indent_object_def compact_member_def indent_member_def
      quote_plain_def abc123_indented_def abc123_compact_def fresh_def pretty_config_def
      info_of_commit_def New_def linux_env_def initial_vars_def Let_def)


section \<open>Properties of the build timestamp\<close>







end
